theory Spec2Isabelle
  imports Main
begin

section \<open>Pool scanners of rekall/plugins/windows/filescan.py\<close>

text \<open>
  The module scans memory for tagged pool allocations and turns validated allocations
  into rows. Python integers are unbounded, so every address, size and identifier is an
  \<open>int\<close>. The typed overlays of Rekall (objects read lazily from an address space) are
  records holding the values the field reads return; a read that yields Rekall's
  \<open>NoneObject\<close> is \<open>None\<close>.
\<close>

subsection \<open>Collaborators: profile, session, typed views\<close>

text \<open>
  \<open>profile.get_constant\<close>, \<open>profile.get_obj_size\<close> and
  \<open>profile.get_constant_object(name, "Pointer").v()\<close>. A constant the profile does not
  have resolves to \<open>NoneObject\<close>, whose \<open>.v()\<close> is again \<open>NoneObject\<close>: \<open>None\<close> here.
\<close>

record profile =
  get_constant :: "string \<Rightarrow> string"
  get_obj_size :: "string \<Rightarrow> int"
  get_constant_object :: "string \<Rightarrow> int option"

text \<open>
  \<open>session.kernel_address_space.metadata(key)\<close>, by its truth value, and
  \<open>plugin_args.verbosity\<close>.
\<close>

record session =
  kernel_address_space_metadata :: "string \<Rightarrow> bool"
  verbosity :: int

text \<open>A \<open>_POOL_HEADER\<close> yielded by a scanner.\<close>

record pool_obj =
  pool_offset :: int
  PoolTag :: string
  pool_size :: int
  PagedPool :: bool
  NonPagedPool :: bool
  FreePool :: bool
  PoolIndex :: int

text \<open>An \<open>_OBJECT_HEADER\<close> yielded by \<open>pool_obj.IterObject\<close>.\<close>

record object_header =
  PointerCount :: int
  HandleCount :: int
  NameInfo_Name :: "string option"
  Body :: int
  obj_end :: int

record EPROCESS =
  obj_vm :: string
  obj_offset :: int
  Pcb_DirectoryTableBase :: int
  ActiveProcessLinks_Flink :: int
  ActiveProcessLinks_Blink :: int
  UniqueProcessId :: int
  InheritedFromUniqueProcessId :: int
  CreateTime :: int
  ExitTime :: int

record DEVICE_OBJECT =
  DeviceType :: int

text \<open>
  A \<open>_FILE_OBJECT\<close>: \<open>FileName\<close> is \<open>FileName.v(vm=kernel_address_space)\<close>,
  \<open>DeviceObject\<close> is \<open>DeviceObject.deref(vm=kernel_address_space)\<close>.
\<close>

record FILE_OBJECT =
  file_offset :: int
  FileName :: "string option"
  DeviceObject :: "DEVICE_OBJECT option"
  AccessString :: string
  file_name_with_drive :: "string option"

record KMUTANT =
  mutant_offset :: int
  Header_SignalState :: int
  OwnerThread :: int

record ETHREAD =
  Cid_UniqueProcess :: int
  Cid_UniqueThread :: int

text \<open>
  The typed-overlay capability the module consumes: \<open>pool_obj.IterObject(type, freed=True)\<close>,
  the cast of an object body to \<open>_EPROCESS\<close>, the profile's constructors of typed objects
  at an offset, \<open>DeviceType.is_valid()\<close>, the owner of a handle
  (\<open>HandleInfo.SingleEntry.Process.deref\<close>) and the text \<open>str.format\<close> gives a field.
\<close>

record views =
  IterObject :: "pool_obj \<Rightarrow> string \<Rightarrow> object_header list"
  cast_EPROCESS :: "int \<Rightarrow> EPROCESS"
  FILE_OBJECT_at :: "int \<Rightarrow> FILE_OBJECT"
  KMUTANT_at :: "int \<Rightarrow> KMUTANT"
  ETHREAD_at :: "int \<Rightarrow> ETHREAD"
  is_valid :: "int \<Rightarrow> bool"
  HandleInfo_Process :: "object_header \<Rightarrow> int option"
  format_field :: "int \<Rightarrow> string"

text \<open>Python's \<open>not s\<close> on a string that may be \<open>NoneObject\<close>.\<close>

definition not_str :: "string option \<Rightarrow> bool" where
  "not_str s = (case s of None \<Rightarrow> True | Some t \<Rightarrow> t = [])"

text \<open>Python's \<open>x or d\<close> on an integer that may be \<open>NoneObject\<close>.\<close>

definition or_default :: "int option \<Rightarrow> int \<Rightarrow> int" where
  "or_default v d = (case v of None \<Rightarrow> d | Some x \<Rightarrow> if x = 0 then d else x)"

text \<open>
  Python's \<open>t or ''\<close> on a timestamp, which is false when its value is 0: \<open>None\<close> is
  the empty string.
\<close>

definition or_blank :: "int \<Rightarrow> int option" where
  "or_blank t = (if t = 0 then None else Some t)"

text \<open>\<open>'F' if pool_obj.FreePool else ""\<close>\<close>

definition allocated_flag :: "pool_obj \<Rightarrow> string" where
  "allocated_flag p = (if FreePool p then ''F'' else [])"

subsection \<open>Check lists\<close>

text \<open>
  One entry of \<open>self.checks\<close>: the check's name with its keyword arguments.
  \<open>CheckPoolSize\<close> is given either \<open>min_size\<close> or \<open>condition\<close>;
  \<open>CheckPoolType\<close> takes \<open>paged\<close>, \<open>non_paged\<close> and \<open>free\<close>, in this order.
\<close>

datatype check =
    PoolTagCheck string
  | CheckPoolSize_min_size int
  | CheckPoolSize_condition "int \<Rightarrow> bool"
  | CheckPoolType bool bool bool
  | CheckPoolIndex int

record PoolScanner =
  checks :: "check list"

definition PoolScanFile_init :: "profile \<Rightarrow> PoolScanner" where
  "PoolScanFile_init prof =
     \<lparr> checks =
         [ PoolTagCheck (get_constant prof ''FILE_POOLTAG''),
           CheckPoolSize_min_size (get_obj_size prof ''_FILE_OBJECT''),
           CheckPoolType True True True,
           CheckPoolIndex 0 ] \<rparr>"

text \<open>
  The subclasses run the parent's \<open>__init__\<close> and then assign \<open>self.checks\<close> anew.
\<close>

definition PoolScanDriver_init :: "profile \<Rightarrow> PoolScanner" where
  "PoolScanDriver_init prof =
     (PoolScanFile_init prof)
     \<lparr> checks :=
         [ PoolTagCheck (get_constant prof ''DRIVER_POOLTAG''),
           CheckPoolSize_condition (\<lambda>x. x > get_obj_size prof ''_DRIVER_OBJECT''),
           CheckPoolType True True True,
           CheckPoolIndex 0 ] \<rparr>"

definition PoolScanSymlink_init :: "profile \<Rightarrow> PoolScanner" where
  "PoolScanSymlink_init prof =
     (PoolScanFile_init prof)
     \<lparr> checks :=
         [ PoolTagCheck (get_constant prof ''SYMLINK_POOLTAG''),
           CheckPoolSize_min_size (get_obj_size prof ''_OBJECT_SYMBOLIC_LINK''),
           CheckPoolType True True True ] \<rparr>"

definition PoolScanMutant_init :: "profile \<Rightarrow> PoolScanner" where
  "PoolScanMutant_init prof =
     (PoolScanDriver_init prof)
     \<lparr> checks :=
         [ PoolTagCheck (get_constant prof ''MUTANT_POOLTAG''),
           CheckPoolSize_min_size (get_obj_size prof ''_KMUTANT''),
           CheckPoolType True True True,
           CheckPoolIndex 0 ] \<rparr>"

text \<open>
  Modelled from the spec: the check classes \<open>PoolTagCheck\<close>, \<open>CheckPoolSize\<close>,
  \<open>CheckPoolType\<close> and \<open>CheckPoolIndex\<close> of \<open>rekall.plugins.windows.common\<close>, which
  is not among the sources. By the spec the tag bytes match exactly, the declared size
  is at least the minimum size or satisfies the custom comparator, the allocation's
  state is one of the allowed states, and the pool index equals the configured value.
\<close>

fun check_passes :: "check \<Rightarrow> pool_obj \<Rightarrow> bool" where
  "check_passes (PoolTagCheck tag) c = (PoolTag c = tag)"
| "check_passes (CheckPoolSize_min_size m) c = (pool_size c \<ge> m)"
| "check_passes (CheckPoolSize_condition condition) c = condition (pool_size c)"
| "check_passes (CheckPoolType paged non_paged free) c =
     ((paged \<and> PagedPool c) \<or> (non_paged \<and> NonPagedPool c) \<or> (free \<and> FreePool c))"
| "check_passes (CheckPoolIndex v) c = (PoolIndex c = v)"

text \<open>
  Modelled from the spec: the scanner's evaluation of its check list, in order, with
  rejection at the first check that fails.
\<close>

fun check_chain :: "check list \<Rightarrow> pool_obj \<Rightarrow> bool" where
  "check_chain [] c = True"
| "check_chain (k # ks) c = (if check_passes k c then check_chain ks c else False)"

subsection \<open>FileScan\<close>

text \<open>
  The inner loop of \<open>FileScan.generate_hits\<close> over the object headers of one pool
  allocation; each \<open>continue\<close> is a recursive call on the rest. \<open>is_valid\<close> of the
  device type of a \<open>NoneObject\<close> is again \<open>NoneObject\<close>, which is false.
\<close>

fun file_objects ::
  "views \<Rightarrow> pool_obj \<Rightarrow> object_header list
     \<Rightarrow> (pool_obj \<times> object_header \<times> FILE_OBJECT) list" where
  "file_objects vw p [] = []"
| "file_objects vw p (object_obj # rest) =
     (let file_obj = FILE_OBJECT_at vw (obj_end object_obj) in
      if not_str (FileName file_obj) then file_objects vw p rest
      else
        (let device_obj = DeviceObject file_obj in
         if \<not> (case device_obj of None \<Rightarrow> False | Some d \<Rightarrow> is_valid vw (DeviceType d))
           then file_objects vw p rest
         else (p, object_obj, file_obj) # file_objects vw p rest))"

fun file_pools ::
  "views \<Rightarrow> pool_obj list \<Rightarrow> (pool_obj \<times> object_header \<times> FILE_OBJECT) list" where
  "file_pools vw [] = []"
| "file_pools vw (p # pools) =
     file_objects vw p (IterObject vw p ''File'') @ file_pools vw pools"

text \<open>
  \<open>FileScan.generate_hits\<close>. \<open>scan\<close> is the scanner's \<open>scan()\<close> over the plugin's
  address space: the pool allocations that pass the check list it is given.
\<close>

definition FileScan_generate_hits ::
  "profile \<Rightarrow> views \<Rightarrow> (check list \<Rightarrow> pool_obj list)
     \<Rightarrow> (pool_obj \<times> object_header \<times> FILE_OBJECT) list" where
  "FileScan_generate_hits prof vw scan =
     (let scanner = PoolScanFile_init prof in file_pools vw (scan (checks scanner)))"

record file_row =
  file_allocated :: string
  file_offset_p :: int
  file_ptr_count :: int
  file_hnd_count :: int
  file_access :: string
  file_owner :: "int option"
  file_path :: "string option"

text \<open>The body of the loop of \<open>FileScan.render\<close>: the table row of one hit.\<close>

definition file_table_row ::
  "views \<Rightarrow> pool_obj \<times> object_header \<times> FILE_OBJECT \<Rightarrow> file_row" where
  "file_table_row vw hit =
     (case hit of (p, object_obj, file_obj) \<Rightarrow>
        (let owner_process = HandleInfo_Process vw object_obj;
             filename = file_name_with_drive file_obj
         in \<lparr> file_allocated = allocated_flag p,
              file_offset_p = file_offset file_obj,
              file_ptr_count = PointerCount object_obj,
              file_hnd_count = HandleCount object_obj,
              file_access = AccessString file_obj,
              file_owner = owner_process,
              file_path = filename \<rparr>))"

definition FileScan_render ::
  "profile \<Rightarrow> views \<Rightarrow> (check list \<Rightarrow> pool_obj list) \<Rightarrow> file_row list" where
  "FileScan_render prof vw scan =
     map (file_table_row vw) (FileScan_generate_hits prof vw scan)"

text \<open>
  The file candidates of a scan, in scan order: every object of every pool allocation
  the scanner yields, with the \<open>_FILE_OBJECT\<close> that follows its header.
\<close>

definition file_candidates ::
  "profile \<Rightarrow> views \<Rightarrow> (check list \<Rightarrow> pool_obj list)
     \<Rightarrow> (pool_obj \<times> object_header \<times> FILE_OBJECT) list" where
  "file_candidates prof vw scan =
     concat (map (\<lambda>p. map (\<lambda>h. (p, h, FILE_OBJECT_at vw (obj_end h)))
                          (IterObject vw p ''File''))
                 (scan (checks (PoolScanFile_init prof))))"

subsection \<open>MutantScan\<close>

fun mutant_objects ::
  "session \<Rightarrow> views \<Rightarrow> pool_obj \<Rightarrow> object_header list
     \<Rightarrow> (pool_obj \<times> object_header \<times> KMUTANT \<times> string option) list" where
  "mutant_objects sess vw p [] = []"
| "mutant_objects sess vw p (object_obj # rest) =
     (let object_name = NameInfo_Name object_obj in
      if verbosity sess < 5 \<and> not_str object_name then mutant_objects sess vw p rest
      else
        (let mutant = KMUTANT_at vw (obj_end object_obj) in
         (p, object_obj, mutant, object_name) # mutant_objects sess vw p rest))"

fun mutant_pools ::
  "session \<Rightarrow> views \<Rightarrow> pool_obj list
     \<Rightarrow> (pool_obj \<times> object_header \<times> KMUTANT \<times> string option) list" where
  "mutant_pools sess vw [] = []"
| "mutant_pools sess vw (p # pools) =
     mutant_objects sess vw p (IterObject vw p ''Mutant'') @ mutant_pools sess vw pools"

definition MutantScan_generate_hits ::
  "profile \<Rightarrow> session \<Rightarrow> views \<Rightarrow> (check list \<Rightarrow> pool_obj list)
     \<Rightarrow> (pool_obj \<times> object_header \<times> KMUTANT \<times> string option) list" where
  "MutantScan_generate_hits prof sess vw scan =
     (let scanner = PoolScanMutant_init prof in mutant_pools sess vw (scan (checks scanner)))"

record mutant_row =
  mutant_allocated :: string
  mutant_offset_p :: int
  mutant_ptr_count :: int
  mutant_hnd_count :: int
  mutant_signal :: int
  mutant_thread :: int
  mutant_cid :: string
  mutant_name :: "string option"

text \<open>The body of the loop of \<open>MutantScan.render\<close>: the table row of one hit.\<close>

definition mutant_table_row ::
  "views \<Rightarrow> pool_obj \<times> object_header \<times> KMUTANT \<times> string option \<Rightarrow> mutant_row" where
  "mutant_table_row vw hit =
     (case hit of (p, object_obj, mutant, _) \<Rightarrow>
        (let CID =
               (if OwnerThread mutant > 0x80000000 then
                  (let thread = ETHREAD_at vw (OwnerThread mutant) in
                   format_field vw (Cid_UniqueProcess thread) @ '':''
                     @ format_field vw (Cid_UniqueThread thread))
                else [])
         in \<lparr> mutant_allocated = allocated_flag p,
              mutant_offset_p = mutant_offset mutant,
              mutant_ptr_count = PointerCount object_obj,
              mutant_hnd_count = HandleCount object_obj,
              mutant_signal = Header_SignalState mutant,
              mutant_thread = OwnerThread mutant,
              mutant_cid = CID,
              mutant_name = NameInfo_Name object_obj \<rparr>))"

definition MutantScan_render ::
  "profile \<Rightarrow> session \<Rightarrow> views \<Rightarrow> (check list \<Rightarrow> pool_obj list) \<Rightarrow> mutant_row list" where
  "MutantScan_render prof sess vw scan =
     map (mutant_table_row vw) (MutantScan_generate_hits prof sess vw scan)"

text \<open>
  The mutant candidates of a scan, in scan order: every object of every pool
  allocation the scanner yields, with the \<open>_KMUTANT\<close> that follows its header and its
  resolved name.
\<close>

definition mutant_candidates ::
  "profile \<Rightarrow> views \<Rightarrow> (check list \<Rightarrow> pool_obj list)
     \<Rightarrow> (pool_obj \<times> object_header \<times> KMUTANT \<times> string option) list" where
  "mutant_candidates prof vw scan =
     concat (map (\<lambda>p. map (\<lambda>h. (p, h, KMUTANT_at vw (obj_end h), NameInfo_Name h))
                          (IterObject vw p ''Mutant''))
                 (scan (checks (PoolScanMutant_init prof))))"

subsection \<open>PoolScanProcess\<close>

record PoolScanProcess = PoolScanner +
  kernel :: int
  dtb_alignment :: int

definition PoolScanProcess_init :: "profile \<Rightarrow> session \<Rightarrow> PoolScanProcess" where
  "PoolScanProcess_init prof sess =
     \<lparr> checks =
         [ PoolTagCheck (get_constant prof ''EPROCESS_POOLTAG''),
           CheckPoolSize_min_size (get_obj_size prof ''_EPROCESS''),
           CheckPoolType True True True,
           CheckPoolIndex 0 ],
       kernel = or_default (get_constant_object prof ''MmSystemRangeStart'') 0x80000000,
       dtb_alignment =
         (if kernel_address_space_metadata sess ''pae'' then 0x20 else 0x1000) \<rparr>"

text \<open>
  The inner loop of \<open>PoolScanProcess.scan\<close> over the object headers of one pool
  allocation; each \<open>continue\<close> is a recursive call on the rest. The alignment of a
  scanner built by \<open>PoolScanProcess_init\<close> is never 0, so \<open>%\<close> does not raise.
\<close>

fun scan_objects ::
  "PoolScanProcess \<Rightarrow> views \<Rightarrow> pool_obj \<Rightarrow> object_header list
     \<Rightarrow> (pool_obj \<times> EPROCESS) list" where
  "scan_objects self vw p [] = []"
| "scan_objects self vw p (object_header # rest) =
     (let eprocess = cast_EPROCESS vw (Body object_header) in
      if Pcb_DirectoryTableBase eprocess = 0 then scan_objects self vw p rest
      else if Pcb_DirectoryTableBase eprocess mod dtb_alignment self \<noteq> 0
        then scan_objects self vw p rest
      else if ActiveProcessLinks_Flink eprocess < kernel self
           \<or> ActiveProcessLinks_Blink eprocess < kernel self
        then scan_objects self vw p rest
      else (p, eprocess) # scan_objects self vw p rest)"

text \<open>
  \<open>PoolScanProcess.scan\<close>. The last argument is what \<open>super().scan(**kwargs)\<close> yields:
  the pool allocations that passed the check list.
\<close>

fun PoolScanProcess_scan ::
  "PoolScanProcess \<Rightarrow> views \<Rightarrow> pool_obj list \<Rightarrow> (pool_obj \<times> EPROCESS) list" where
  "PoolScanProcess_scan self vw [] = []"
| "PoolScanProcess_scan self vw (p # pools) =
     scan_objects self vw p (IterObject vw p ''Process'')
       @ PoolScanProcess_scan self vw pools"

text \<open>
  The process candidates of a scan, in scan order: every object of every pool
  allocation, cast to \<open>_EPROCESS\<close>, before any of the scanner's own tests.
\<close>

definition process_candidates ::
  "views \<Rightarrow> pool_obj list \<Rightarrow> (pool_obj \<times> EPROCESS) list" where
  "process_candidates vw pools =
     concat (map (\<lambda>p. map (\<lambda>h. (p, cast_EPROCESS vw (Body h)))
                          (IterObject vw p ''Process'')) pools)"

subsection \<open>PSScan\<close>

text \<open>
  The \<open>pslist\<close> plugin. The process list of the image it enumerates is not fixed by the
  code of \<open>PSScan\<close>: \<open>list_eprocess k\<close> is what a call of \<open>list_eprocess()\<close> enumerates
  after \<open>k\<close> earlier calls, so that a second enumeration may differ from the first.
  \<open>virtual_process_from_physical_offset\<close> may find no process.
\<close>

record pslist =
  list_eprocess :: "nat \<Rightarrow> EPROCESS list"
  virtual_process_from_physical_offset :: "EPROCESS \<Rightarrow> EPROCESS option"

text \<open>A memory range of \<open>generate_memory_ranges()\<close>; \<open>run_type\<close> is \<open>run.data["type"]\<close>.\<close>

record run =
  run_start :: int
  run_length :: int
  run_type :: string
  run_address_space :: string

text \<open>
  The calls on the collaborators: an enumeration of the processes, the start of the
  inherited scan of a memory range, and the translation of a scanned process.
\<close>

datatype event =
    Call_list_eprocess
  | Call_scan run
  | Call_virtual_process_from_physical_offset EPROCESS

text \<open>
  The state of the collaborators: how many enumerations have been made, and the calls
  made so far, the latest last.
\<close>

record world =
  enumerations :: nat
  trace :: "event list"

text \<open>
  The three calls. A value of a collaborator is only had through its call, which records
  itself in the state.
\<close>

definition call_list_eprocess :: "pslist \<Rightarrow> world \<Rightarrow> EPROCESS list \<times> world" where
  "call_list_eprocess ps w =
     (list_eprocess ps (enumerations w),
      w \<lparr> enumerations := Suc (enumerations w), trace := trace w @ [Call_list_eprocess] \<rparr>)"

definition call_virtual_process_from_physical_offset ::
  "pslist \<Rightarrow> EPROCESS \<Rightarrow> world \<Rightarrow> EPROCESS option \<times> world" where
  "call_virtual_process_from_physical_offset ps eprocess w =
     (virtual_process_from_physical_offset ps eprocess,
      w \<lparr> trace := trace w @ [Call_virtual_process_from_physical_offset eprocess] \<rparr>)"

text \<open>
  \<open>base_scan\<close> is the inherited scan of a range (\<open>offset=run.start, maxlen=run.length\<close>
  on \<open>run.address_space\<close>) with a check list.
\<close>

definition call_scan ::
  "(check list \<Rightarrow> run \<Rightarrow> pool_obj list) \<Rightarrow> check list \<Rightarrow> run \<Rightarrow> world
     \<Rightarrow> pool_obj list \<times> world" where
  "call_scan base_scan cs r w = (base_scan cs r, w \<lparr> trace := trace w @ [Call_scan r] \<rparr>)"

record psscan_row =
  allocated :: string
  offset_p :: EPROCESS
  offset_v :: "int option"
  ppid :: int
  pdb :: int
  stat :: string
  process_create_time :: "int option"
  process_exit_time :: "int option"

text \<open>The loop that fills \<open>known_eprocess\<close> and \<open>known_pids\<close>.\<close>

fun known_sets ::
  "EPROCESS list \<Rightarrow> EPROCESS set \<times> int set \<Rightarrow> EPROCESS set \<times> int set" where
  "known_sets [] known = known"
| "known_sets (task # tasks) (known_eprocess, known_pids) =
     known_sets tasks (insert task known_eprocess, insert (UniqueProcessId task) known_pids)"

text \<open>
  The body of the inner loop of \<open>collect\<close>: the row of one scanned process. Only a
  process found in a physical range is translated, by a call on \<open>pslist\<close>. A
  \<open>NoneObject\<close> is a member of no set of processes, and its \<open>obj_offset\<close> is again
  \<open>NoneObject\<close>.
\<close>

definition collect_row ::
  "pslist \<Rightarrow> EPROCESS set \<Rightarrow> int set \<Rightarrow> run \<Rightarrow> pool_obj \<times> EPROCESS \<Rightarrow> world
     \<Rightarrow> psscan_row \<times> world" where
  "collect_row ps known_eprocess known_pids r hit w =
     (case hit of (p, eprocess) \<Rightarrow>
        (let (virtual_eprocess, w) =
               (if run_type r = ''PhysicalAS''
                then call_virtual_process_from_physical_offset ps eprocess w
                else (Some eprocess, w));
             known = [];
             known = (if (case virtual_eprocess of None \<Rightarrow> False
                          | Some v \<Rightarrow> v \<in> known_eprocess)
                      then known @ ''E'' else known);
             known = (if UniqueProcessId eprocess \<in> known_pids
                      then known @ ''P'' else known)
         in (\<lparr> allocated = allocated_flag p,
               offset_p = eprocess,
               offset_v = map_option obj_offset virtual_eprocess,
               ppid = InheritedFromUniqueProcessId eprocess,
               pdb = Pcb_DirectoryTableBase eprocess,
               stat = known,
               process_create_time = or_blank (CreateTime eprocess),
               process_exit_time = or_blank (ExitTime eprocess) \<rparr>, w)))"

text \<open>The inner loop of \<open>collect\<close> over the processes the scanner yields for one range.\<close>

fun collect_hits ::
  "pslist \<Rightarrow> EPROCESS set \<Rightarrow> int set \<Rightarrow> run \<Rightarrow> (pool_obj \<times> EPROCESS) list \<Rightarrow> world
     \<Rightarrow> psscan_row list \<times> world" where
  "collect_hits ps known_eprocess known_pids r [] w = ([], w)"
| "collect_hits ps known_eprocess known_pids r (hit # hits) w =
     (let (row, w) = collect_row ps known_eprocess known_pids r hit w;
          (rows, w) = collect_hits ps known_eprocess known_pids r hits w
      in (row # rows, w))"

text \<open>The loop over the memory ranges, with a scanner built for each range.\<close>

fun collect_runs ::
  "profile \<Rightarrow> session \<Rightarrow> views \<Rightarrow> pslist \<Rightarrow> (check list \<Rightarrow> run \<Rightarrow> pool_obj list)
     \<Rightarrow> EPROCESS set \<Rightarrow> int set \<Rightarrow> run list \<Rightarrow> world \<Rightarrow> psscan_row list \<times> world" where
  "collect_runs prof sess vw ps base_scan known_eprocess known_pids [] w = ([], w)"
| "collect_runs prof sess vw ps base_scan known_eprocess known_pids (r # runs) w =
     (let scanner = PoolScanProcess_init prof sess;
          (pools, w) = call_scan base_scan (checks scanner) r w;
          (rows, w) =
             collect_hits ps known_eprocess known_pids r
               (PoolScanProcess_scan scanner vw pools) w;
          (more_rows, w) =
             collect_runs prof sess vw ps base_scan known_eprocess known_pids runs w
      in (rows @ more_rows, w))"

text \<open>
  \<open>PSScan.collect\<close>, from a state of the collaborators: the rows it yields and the
  state it leaves.
\<close>

definition PSScan_collect ::
  "profile \<Rightarrow> session \<Rightarrow> views \<Rightarrow> pslist \<Rightarrow> (check list \<Rightarrow> run \<Rightarrow> pool_obj list)
     \<Rightarrow> run list \<Rightarrow> world \<Rightarrow> psscan_row list \<times> world" where
  "PSScan_collect prof sess vw ps base_scan runs w =
     (let (tasks, w) = call_list_eprocess ps w;
          (known_eprocess, known_pids) = known_sets tasks ({}, {})
      in collect_runs prof sess vw ps base_scan known_eprocess known_pids runs w)"

text \<open>
  The processes \<open>collect\<close> scans, in scan order, each with the memory range it was
  found in.
\<close>

definition scanned_processes ::
  "profile \<Rightarrow> session \<Rightarrow> views \<Rightarrow> (check list \<Rightarrow> run \<Rightarrow> pool_obj list) \<Rightarrow> run list
     \<Rightarrow> (run \<times> pool_obj \<times> EPROCESS) list" where
  "scanned_processes prof sess vw base_scan runs =
     concat (map (\<lambda>r. map (Pair r)
                    (PoolScanProcess_scan (PoolScanProcess_init prof sess) vw
                       (base_scan (checks (PoolScanProcess_init prof sess)) r))) runs)"

subsection \<open>Concrete scans\<close>

text \<open>
  A small image for evaluating the definitions: a profile without and with
  \<open>MmSystemRangeStart\<close>, sessions without and with PAE, one pool allocation, and the
  objects the typed views find in it (five processes, five files, four mutants).
\<close>

definition ex_profile :: profile where
  "ex_profile =
     \<lparr> get_constant = (\<lambda>name. take 4 name),
       get_obj_size = (\<lambda>name. 168),
       get_constant_object = (\<lambda>name. None) \<rparr>"

definition ex_profile64 :: profile where
  "ex_profile64 =
     ex_profile \<lparr> get_constant_object :=
       (\<lambda>name. if name = ''MmSystemRangeStart'' then Some 0xFFFF080000000000 else None) \<rparr>"

definition ex_session :: session where
  "ex_session = \<lparr> kernel_address_space_metadata = (\<lambda>key. False), verbosity = 1 \<rparr>"

definition ex_session_pae :: session where
  "ex_session_pae = \<lparr> kernel_address_space_metadata = (\<lambda>key. key = ''pae''), verbosity = 5 \<rparr>"

definition ex_pool :: pool_obj where
  "ex_pool =
     \<lparr> pool_offset = 0x2000, PoolTag = ''EPRO'', pool_size = 0x300, PagedPool = False,
       NonPagedPool = True, FreePool = False, PoolIndex = 0 \<rparr>"

definition ex_header :: "int \<Rightarrow> string option \<Rightarrow> object_header" where
  "ex_header b name =
     \<lparr> PointerCount = 2, HandleCount = 1, NameInfo_Name = name, Body = b, obj_end = b \<rparr>"

definition ex_eprocess :: "string \<Rightarrow> int \<Rightarrow> int \<Rightarrow> int \<Rightarrow> int \<Rightarrow> int \<Rightarrow> EPROCESS" where
  "ex_eprocess vm off dtb flink blink pid =
     \<lparr> obj_vm = vm, obj_offset = off, Pcb_DirectoryTableBase = dtb,
       ActiveProcessLinks_Flink = flink, ActiveProcessLinks_Blink = blink,
       UniqueProcessId = pid, InheritedFromUniqueProcessId = 4, CreateTime = 0,
       ExitTime = 0 \<rparr>"

definition ex_cast :: "int \<Rightarrow> EPROCESS" where
  "ex_cast b =
     (if b = 1 then ex_eprocess ''P'' b 0 0x80001000 0x80002000 8
      else if b = 2 then ex_eprocess ''P'' b 0x39020 0x80001000 0x80002000 12
      else if b = 3 then ex_eprocess ''P'' b 0x39000 0x7FFF0000 0x80002000 16
      else if b = 4 then ex_eprocess ''P'' b 0x39000 0x80001000 0x7FFF0000 20
      else ex_eprocess ''P'' b 0x39000 0x80000000 0x80002000 24)"

definition ex_file :: "int \<Rightarrow> FILE_OBJECT" where
  "ex_file b =
     \<lparr> file_offset = b,
       FileName = (if b = 11 then Some [] else if b = 13 then None else Some ''a.txt''),
       DeviceObject = (if b = 12 then Some \<lparr> DeviceType = 0 \<rparr>
                       else if b = 14 then None else Some \<lparr> DeviceType = 8 \<rparr>),
       AccessString = ''RW-'',
       file_name_with_drive = Some ''C:a.txt'' \<rparr>"

definition ex_mutant :: "int \<Rightarrow> KMUTANT" where
  "ex_mutant b =
     \<lparr> mutant_offset = b, Header_SignalState = 1,
       OwnerThread = (if b = 20 then 0x80000000 else if b = 21 then 0x8A000000
                      else if b = 22 then 0x90000000 else 0) \<rparr>"

definition ex_views :: views where
  "ex_views =
     \<lparr> IterObject =
         (\<lambda>p kind.
            if kind = ''Process'' then map (\<lambda>b. ex_header b None) [1, 2, 3, 4, 5]
            else if kind = ''File'' then map (\<lambda>b. ex_header b None) [10, 11, 12, 13, 14]
            else [ex_header 20 (Some ''m''), ex_header 21 None, ex_header 22 (Some []),
                  ex_header 23 (Some ''n'')]),
       cast_EPROCESS = ex_cast,
       FILE_OBJECT_at = ex_file,
       KMUTANT_at = ex_mutant,
       ETHREAD_at = (\<lambda>a. \<lparr> Cid_UniqueProcess = 4, Cid_UniqueThread = 8 \<rparr>),
       is_valid = (\<lambda>t. t = 8),
       HandleInfo_Process = (\<lambda>h. None),
       format_field = (\<lambda>v. if v = 4 then ''4'' else ''8'') \<rparr>"

definition ex_pslist :: pslist where
  "ex_pslist =
     \<lparr> list_eprocess =
         (\<lambda>k. if k = 0 then [ex_eprocess ''V'' 0x85000000 0x39000 0x80000000 0x80002000 24]
              else []),
       virtual_process_from_physical_offset =
         (\<lambda>e. if obj_offset e = 5
              then Some (ex_eprocess ''V'' 0x85000000 0x39000 0x80000000 0x80002000 24)
              else None) \<rparr>"

definition ex_world :: world where
  "ex_world = \<lparr> enumerations = 0, trace = [] \<rparr>"

definition ex_run :: "string \<Rightarrow> run" where
  "ex_run kind =
     \<lparr> run_start = 0, run_length = 0x10000, run_type = kind, run_address_space = kind \<rparr>"

section \<open>Properties of the process scanner\<close>

lemma scan_objects_filter:
  "scan_objects self vw p hs =
     filter (\<lambda>(q, e). Pcb_DirectoryTableBase e \<noteq> 0
                   \<and> Pcb_DirectoryTableBase e mod dtb_alignment self = 0
                   \<and> kernel self \<le> ActiveProcessLinks_Flink e
                   \<and> kernel self \<le> ActiveProcessLinks_Blink e)
       (map (\<lambda>h. (p, cast_EPROCESS vw (Body h))) hs)"
  by (induction hs) (auto simp: Let_def)

lemma PoolScanProcess_scan_filter:
  "PoolScanProcess_scan self vw pools =
     filter (\<lambda>(q, e). Pcb_DirectoryTableBase e \<noteq> 0
                   \<and> Pcb_DirectoryTableBase e mod dtb_alignment self = 0
                   \<and> kernel self \<le> ActiveProcessLinks_Flink e
                   \<and> kernel self \<le> ActiveProcessLinks_Blink e)
       (process_candidates vw pools)"
  by (induction pools) (simp_all add: process_candidates_def scan_objects_filter)

lemmas ex_defs =
  PoolScanProcess_init_def ex_profile_def ex_profile64_def ex_session_def ex_session_pae_def
  ex_views_def ex_cast_def ex_header_def ex_eprocess_def or_default_def process_candidates_def

lemma dtb_alignment_init:
  "dtb_alignment (PoolScanProcess_init prof sess) =
     (if kernel_address_space_metadata sess ''pae'' then 0x20 else 0x1000)"
  by (simp add: PoolScanProcess_init_def)

lemma kernel_init:
  "kernel (PoolScanProcess_init prof sess) =
     or_default (get_constant_object prof ''MmSystemRangeStart'') 0x80000000"
  by (simp add: PoolScanProcess_init_def)

text \<open>
  C2. A process candidate whose directory table base is 0, or is not a multiple of the
  scanner's alignment, is never among the rows of \<open>PoolScanProcess.scan\<close>; every row
  is a candidate with a nonzero, aligned directory table base.
\<close>

theorem process_scan_rejects_bad_dtb:
  "(\<forall>c \<in> set (process_candidates vw pools).
      Pcb_DirectoryTableBase (snd c) = 0
      \<or> Pcb_DirectoryTableBase (snd c) mod dtb_alignment (PoolScanProcess_init prof sess) \<noteq> 0
      \<longrightarrow> c \<notin> set (PoolScanProcess_scan (PoolScanProcess_init prof sess) vw pools))
   \<and> (\<forall>r \<in> set (PoolScanProcess_scan (PoolScanProcess_init prof sess) vw pools).
        r \<in> set (process_candidates vw pools)
        \<and> Pcb_DirectoryTableBase (snd r) \<noteq> 0
        \<and> Pcb_DirectoryTableBase (snd r) mod dtb_alignment (PoolScanProcess_init prof sess) = 0)"
  by (auto simp: PoolScanProcess_scan_filter)

theorem process_scan_rejects_bad_dtb_witness:
  "(ex_pool, ex_cast 1) \<in> set (process_candidates ex_views [ex_pool])
   \<and> Pcb_DirectoryTableBase (ex_cast 1) = 0
   \<and> (ex_pool, ex_cast 1)
       \<notin> set (PoolScanProcess_scan (PoolScanProcess_init ex_profile ex_session) ex_views [ex_pool])
   \<and> (ex_pool, ex_cast 2) \<in> set (process_candidates ex_views [ex_pool])
   \<and> Pcb_DirectoryTableBase (ex_cast 2) mod
         dtb_alignment (PoolScanProcess_init ex_profile ex_session) = 0x20
   \<and> (ex_pool, ex_cast 2)
       \<notin> set (PoolScanProcess_scan (PoolScanProcess_init ex_profile ex_session) ex_views [ex_pool])
   \<and> (ex_pool, ex_cast 5)
       \<in> set (PoolScanProcess_scan (PoolScanProcess_init ex_profile ex_session) ex_views [ex_pool])
   \<and> Pcb_DirectoryTableBase (ex_cast 5) = 0x39000
   \<and> Pcb_DirectoryTableBase (ex_cast 5) mod
         dtb_alignment (PoolScanProcess_init ex_profile ex_session) = 0"
  using process_scan_rejects_bad_dtb [of ex_views "[ex_pool]" ex_profile ex_session]
  by (simp add: ex_defs)

text \<open>
  C3. A process candidate whose \<open>Flink\<close> or \<open>Blink\<close> lies below the scanner's
  kernel boundary is never among the rows; a candidate that passed the directory table
  base tests and has both pointers at or above the boundary is a row.
\<close>

theorem process_scan_list_pointers:
  "(\<forall>c \<in> set (process_candidates vw pools).
      ActiveProcessLinks_Flink (snd c) < kernel (PoolScanProcess_init prof sess)
      \<or> ActiveProcessLinks_Blink (snd c) < kernel (PoolScanProcess_init prof sess)
      \<longrightarrow> c \<notin> set (PoolScanProcess_scan (PoolScanProcess_init prof sess) vw pools))
   \<and> (\<forall>c \<in> set (process_candidates vw pools).
        Pcb_DirectoryTableBase (snd c) \<noteq> 0
        \<and> Pcb_DirectoryTableBase (snd c) mod dtb_alignment (PoolScanProcess_init prof sess) = 0
        \<and> kernel (PoolScanProcess_init prof sess) \<le> ActiveProcessLinks_Flink (snd c)
        \<and> kernel (PoolScanProcess_init prof sess) \<le> ActiveProcessLinks_Blink (snd c)
        \<longrightarrow> c \<in> set (PoolScanProcess_scan (PoolScanProcess_init prof sess) vw pools))"
  by (auto simp: PoolScanProcess_scan_filter)

theorem process_scan_list_pointers_witness:
  "(ex_pool, ex_cast 3) \<in> set (process_candidates ex_views [ex_pool])
   \<and> ActiveProcessLinks_Flink (ex_cast 3) < kernel (PoolScanProcess_init ex_profile ex_session)
   \<and> (ex_pool, ex_cast 3)
       \<notin> set (PoolScanProcess_scan (PoolScanProcess_init ex_profile ex_session) ex_views [ex_pool])
   \<and> (ex_pool, ex_cast 4) \<in> set (process_candidates ex_views [ex_pool])
   \<and> ActiveProcessLinks_Blink (ex_cast 4) < kernel (PoolScanProcess_init ex_profile ex_session)
   \<and> (ex_pool, ex_cast 4)
       \<notin> set (PoolScanProcess_scan (PoolScanProcess_init ex_profile ex_session) ex_views [ex_pool])
   \<and> (ex_pool, ex_cast 5) \<in> set (process_candidates ex_views [ex_pool])
   \<and> ActiveProcessLinks_Flink (ex_cast 5) = kernel (PoolScanProcess_init ex_profile ex_session)
   \<and> kernel (PoolScanProcess_init ex_profile ex_session) \<le> ActiveProcessLinks_Blink (ex_cast 5)
   \<and> (ex_pool, ex_cast 5)
       \<in> set (PoolScanProcess_scan (PoolScanProcess_init ex_profile ex_session) ex_views [ex_pool])"
  using process_scan_list_pointers [of ex_views "[ex_pool]" ex_profile ex_session]
  by (simp add: ex_defs)

text \<open>
  C4. The alignment is fixed when the scanner is built: 0x20 when the kernel address
  space reports PAE, 0x1000 otherwise. A candidate misaligned for that mode is never a
  row, and a candidate that passes the other tests is a row exactly when its directory
  table base is aligned for that mode.
\<close>

theorem dtb_alignment_by_addressing_mode:
  "dtb_alignment (PoolScanProcess_init prof sess) =
     (if kernel_address_space_metadata sess ''pae'' then 0x20 else 0x1000)
   \<and> (\<forall>c \<in> set (process_candidates vw pools).
        Pcb_DirectoryTableBase (snd c) mod
          (if kernel_address_space_metadata sess ''pae'' then 0x20 else 0x1000) \<noteq> 0
        \<longrightarrow> c \<notin> set (PoolScanProcess_scan (PoolScanProcess_init prof sess) vw pools))
   \<and> (\<forall>c \<in> set (process_candidates vw pools).
        Pcb_DirectoryTableBase (snd c) \<noteq> 0
        \<and> kernel (PoolScanProcess_init prof sess) \<le> ActiveProcessLinks_Flink (snd c)
        \<and> kernel (PoolScanProcess_init prof sess) \<le> ActiveProcessLinks_Blink (snd c)
        \<longrightarrow> (c \<in> set (PoolScanProcess_scan (PoolScanProcess_init prof sess) vw pools)
             \<longleftrightarrow> Pcb_DirectoryTableBase (snd c) mod
                   (if kernel_address_space_metadata sess ''pae'' then 0x20 else 0x1000) = 0))"
proof -
  have a: "dtb_alignment (PoolScanProcess_init prof sess) =
     (if kernel_address_space_metadata sess ''pae'' then 0x20 else 0x1000)"
    by (rule dtb_alignment_init)
  show ?thesis
    unfolding PoolScanProcess_scan_filter a [symmetric]
    by (auto simp: a)
qed

theorem dtb_alignment_by_addressing_mode_witness:
  "dtb_alignment (PoolScanProcess_init ex_profile ex_session) = 0x1000
   \<and> dtb_alignment (PoolScanProcess_init ex_profile ex_session_pae) = 0x20
   \<and> (ex_pool, ex_cast 2) \<in> set (process_candidates ex_views [ex_pool])
   \<and> Pcb_DirectoryTableBase (ex_cast 2) = 0x39020
   \<and> (ex_pool, ex_cast 2)
       \<notin> set (PoolScanProcess_scan (PoolScanProcess_init ex_profile ex_session) ex_views [ex_pool])
   \<and> (ex_pool, ex_cast 2)
       \<in> set (PoolScanProcess_scan (PoolScanProcess_init ex_profile ex_session_pae) ex_views [ex_pool])"
  using dtb_alignment_by_addressing_mode [of ex_profile ex_session ex_views "[ex_pool]"]
    dtb_alignment_by_addressing_mode [of ex_profile ex_session_pae ex_views "[ex_pool]"]
  by (simp add: ex_defs)

text \<open>
  C9. The boundary of the list-pointer tests is 0x80000000 when \<open>MmSystemRangeStart\<close>
  is absent or 0, and the constant's value otherwise: a candidate that passed the
  directory table base tests is a row exactly when both pointers are at or above it.
\<close>

theorem kernel_boundary_default:
  "kernel (PoolScanProcess_init prof sess) =
     (case get_constant_object prof ''MmSystemRangeStart'' of
        None \<Rightarrow> 0x80000000
      | Some v \<Rightarrow> if v = 0 then 0x80000000 else v)
   \<and> (\<forall>c \<in> set (process_candidates vw pools).
        Pcb_DirectoryTableBase (snd c) \<noteq> 0
        \<and> Pcb_DirectoryTableBase (snd c) mod dtb_alignment (PoolScanProcess_init prof sess) = 0
        \<longrightarrow> (c \<in> set (PoolScanProcess_scan (PoolScanProcess_init prof sess) vw pools)
             \<longleftrightarrow> (case get_constant_object prof ''MmSystemRangeStart'' of
                    None \<Rightarrow> 0x80000000
                  | Some v \<Rightarrow> if v = 0 then 0x80000000 else v)
                   \<le> min (ActiveProcessLinks_Flink (snd c)) (ActiveProcessLinks_Blink (snd c))))"
proof -
  have k: "kernel (PoolScanProcess_init prof sess) =
     (case get_constant_object prof ''MmSystemRangeStart'' of
        None \<Rightarrow> 0x80000000
      | Some v \<Rightarrow> if v = 0 then 0x80000000 else v)"
    by (simp add: kernel_init or_default_def)
  show ?thesis
    unfolding PoolScanProcess_scan_filter k [symmetric]
    by (auto simp: k)
qed

theorem kernel_boundary_default_witness:
  "kernel (PoolScanProcess_init ex_profile ex_session) = 0x80000000
   \<and> kernel (PoolScanProcess_init (ex_profile \<lparr> get_constant_object := (\<lambda>name. Some 0) \<rparr>)
        ex_session) = 0x80000000
   \<and> kernel (PoolScanProcess_init ex_profile64 ex_session) = 0xFFFF080000000000
   \<and> (ex_pool, ex_cast 5) \<in> set (process_candidates ex_views [ex_pool])
   \<and> (ex_pool, ex_cast 5)
       \<in> set (PoolScanProcess_scan (PoolScanProcess_init ex_profile ex_session) ex_views [ex_pool])
   \<and> (ex_pool, ex_cast 5)
       \<notin> set (PoolScanProcess_scan (PoolScanProcess_init ex_profile64 ex_session) ex_views [ex_pool])"
  using kernel_boundary_default [of ex_profile ex_session ex_views "[ex_pool]"]
    kernel_boundary_default [of "ex_profile \<lparr> get_constant_object := (\<lambda>name. Some 0) \<rparr>" ex_session
      ex_views "[ex_pool]"]
    kernel_boundary_default [of ex_profile64 ex_session ex_views "[ex_pool]"]
  by (simp add: ex_defs)

section \<open>Properties of the process listing\<close>

lemma known_sets_eq:
  "known_sets tasks (A, B) = (A \<union> set tasks, B \<union> UniqueProcessId ` set tasks)"
  by (induction tasks arbitrary: A B) auto

lemma collect_row_world:
  "enumerations (snd (collect_row ps ke kp r hit w)) = enumerations w
   \<and> (\<exists>evs. trace (snd (collect_row ps ke kp r hit w)) = trace w @ evs
          \<and> Call_list_eprocess \<notin> set evs)"
  by (cases hit)
     (simp add: collect_row_def call_virtual_process_from_physical_offset_def Let_def)

lemma collect_hits_world:
  "enumerations (snd (collect_hits ps ke kp r hits w)) = enumerations w
   \<and> (\<exists>evs. trace (snd (collect_hits ps ke kp r hits w)) = trace w @ evs
          \<and> Call_list_eprocess \<notin> set evs)"
proof (induction hits arbitrary: w)
  case Nil
  show ?case by simp
next
  case (Cons hit hits)
  obtain row w1 where r: "collect_row ps ke kp r hit w = (row, w1)"
    by (cases "collect_row ps ke kp r hit w")
  obtain rows w2 where h: "collect_hits ps ke kp r hits w1 = (rows, w2)"
    by (cases "collect_hits ps ke kp r hits w1")
  from collect_row_world [of ps ke kp r hit w] r
  obtain evs1 where a: "enumerations w1 = enumerations w" "trace w1 = trace w @ evs1"
      "Call_list_eprocess \<notin> set evs1"
    by auto
  from Cons.IH [of w1] h
  obtain evs2 where b: "enumerations w2 = enumerations w1" "trace w2 = trace w1 @ evs2"
      "Call_list_eprocess \<notin> set evs2"
    by auto
  have "trace w2 = trace w @ (evs1 @ evs2)" "Call_list_eprocess \<notin> set (evs1 @ evs2)"
    using a b by simp_all
  then have "\<exists>evs. trace w2 = trace w @ evs \<and> Call_list_eprocess \<notin> set evs"
    by blast
  with a b show ?case
    by (simp add: r h)
qed

lemma collect_runs_world:
  "enumerations (snd (collect_runs prof sess vw ps base_scan ke kp runs w)) = enumerations w
   \<and> (\<exists>evs. trace (snd (collect_runs prof sess vw ps base_scan ke kp runs w)) = trace w @ evs
          \<and> Call_list_eprocess \<notin> set evs)"
proof (induction runs arbitrary: w)
  case Nil
  show ?case by simp
next
  case (Cons r runs)
  let ?scanner = "PoolScanProcess_init prof sess"
  let ?w1 = "w \<lparr> trace := trace w @ [Call_scan r] \<rparr>"
  let ?hits = "PoolScanProcess_scan ?scanner vw (base_scan (checks ?scanner) r)"
  obtain rows w2 where h: "collect_hits ps ke kp r ?hits ?w1 = (rows, w2)"
    by (cases "collect_hits ps ke kp r ?hits ?w1")
  obtain more w3 where m: "collect_runs prof sess vw ps base_scan ke kp runs w2 = (more, w3)"
    by (cases "collect_runs prof sess vw ps base_scan ke kp runs w2")
  from collect_hits_world [of ps ke kp r ?hits ?w1] h
  obtain evs1 where a: "enumerations w2 = enumerations w"
      "trace w2 = (trace w @ [Call_scan r]) @ evs1" "Call_list_eprocess \<notin> set evs1"
    by auto
  from Cons.IH [of w2] m
  obtain evs2 where b: "enumerations w3 = enumerations w2" "trace w3 = trace w2 @ evs2"
      "Call_list_eprocess \<notin> set evs2"
    by auto
  have "trace w3 = trace w @ (Call_scan r # evs1 @ evs2)"
      "Call_list_eprocess \<notin> set (Call_scan r # evs1 @ evs2)"
    using a b by simp_all
  then have "\<exists>evs. trace w3 = trace w @ evs \<and> Call_list_eprocess \<notin> set evs"
    by blast
  with a b show ?case
    by (simp add: call_scan_def Let_def h m)
qed

lemma collect_row_flags:
  "offset_p (fst (collect_row ps ke kp r (p, e) w)) = e
   \<and> (CHR ''E'' \<in> set (stat (fst (collect_row ps ke kp r (p, e) w))) \<longleftrightarrow>
        (\<exists>v. (if run_type r = ''PhysicalAS'' then virtual_process_from_physical_offset ps e
              else Some e) = Some v \<and> v \<in> ke))
   \<and> (CHR ''P'' \<in> set (stat (fst (collect_row ps ke kp r (p, e) w))) \<longleftrightarrow>
        UniqueProcessId e \<in> kp)"
  by (auto simp: collect_row_def call_virtual_process_from_physical_offset_def Let_def
           split: option.splits)

lemma collect_hits_flags:
  "list_all2
     (\<lambda>(r, p, e) row.
        offset_p row = e
        \<and> (CHR ''E'' \<in> set (stat row) \<longleftrightarrow>
             (\<exists>v. (if run_type r = ''PhysicalAS''
                   then virtual_process_from_physical_offset ps e else Some e) = Some v
                  \<and> v \<in> ke))
        \<and> (CHR ''P'' \<in> set (stat row) \<longleftrightarrow> UniqueProcessId e \<in> kp))
     (map (Pair r) hits) (fst (collect_hits ps ke kp r hits w))"
proof (induction hits arbitrary: w)
  case Nil
  show ?case by simp
next
  case (Cons hit hits)
  obtain p e where hit: "hit = (p, e)"
    by (cases hit)
  obtain row w1 where r: "collect_row ps ke kp r (p, e) w = (row, w1)"
    by (cases "collect_row ps ke kp r (p, e) w")
  obtain rows w2 where h: "collect_hits ps ke kp r hits w1 = (rows, w2)"
    by (cases "collect_hits ps ke kp r hits w1")
  from collect_row_flags [where ps = ps and ke = ke and kp = kp and r = r and p = p and e = e
      and w = w] r Cons.IH [of w1] h
  show ?case
    by (simp add: hit)
qed

lemma collect_runs_flags:
  "list_all2
     (\<lambda>(r, p, e) row.
        offset_p row = e
        \<and> (CHR ''E'' \<in> set (stat row) \<longleftrightarrow>
             (\<exists>v. (if run_type r = ''PhysicalAS''
                   then virtual_process_from_physical_offset ps e else Some e) = Some v
                  \<and> v \<in> ke))
        \<and> (CHR ''P'' \<in> set (stat row) \<longleftrightarrow> UniqueProcessId e \<in> kp))
     (scanned_processes prof sess vw base_scan runs)
     (fst (collect_runs prof sess vw ps base_scan ke kp runs w))"
proof (induction runs arbitrary: w)
  case Nil
  show ?case by (simp add: scanned_processes_def)
next
  case (Cons r runs)
  let ?scanner = "PoolScanProcess_init prof sess"
  let ?w1 = "w \<lparr> trace := trace w @ [Call_scan r] \<rparr>"
  let ?hits = "PoolScanProcess_scan ?scanner vw (base_scan (checks ?scanner) r)"
  obtain rows w2 where h: "collect_hits ps ke kp r ?hits ?w1 = (rows, w2)"
    by (cases "collect_hits ps ke kp r ?hits ?w1")
  obtain more w3 where m: "collect_runs prof sess vw ps base_scan ke kp runs w2 = (more, w3)"
    by (cases "collect_runs prof sess vw ps base_scan ke kp runs w2")
  have s: "scanned_processes prof sess vw base_scan (r # runs) =
             map (Pair r) ?hits @ scanned_processes prof sess vw base_scan runs"
    by (simp add: scanned_processes_def)
  from collect_hits_flags [where ps = ps and ke = ke and kp = kp and r = r and hits = ?hits
      and w = ?w1] h Cons.IH [of w2] m
  show ?case
    unfolding s
    by (simp add: call_scan_def Let_def h m list_all2_appendI
             del: PoolScanProcess_scan.simps)
qed

text \<open>
  C1. \<open>PSScan.collect\<close> enumerates the processes exactly once: the number of
  enumerations grows by one, the enumeration is the first call \<open>collect\<close> makes, and
  none of the later calls (the scans of the memory ranges and the translations of the
  scanned processes) is an enumeration. Each scanned process gets one row, in scan
  order. Its status has \<open>E\<close> exactly when its translated virtual process is one of the
  processes of that one enumeration, and has \<open>P\<close> exactly when its identifier is the
  identifier of one of them, whatever a later enumeration would give.
\<close>

theorem psscan_known_flags:
  "enumerations (snd (PSScan_collect prof sess vw ps base_scan runs w)) = Suc (enumerations w)
   \<and> (\<exists>evs. trace (snd (PSScan_collect prof sess vw ps base_scan runs w))
               = trace w @ Call_list_eprocess # evs
          \<and> Call_list_eprocess \<notin> set evs)
   \<and> list_all2
       (\<lambda>(r, p, e) row.
          offset_p row = e
          \<and> (CHR ''E'' \<in> set (stat row) \<longleftrightarrow>
               (\<exists>v. (if run_type r = ''PhysicalAS''
                     then virtual_process_from_physical_offset ps e else Some e) = Some v
                    \<and> v \<in> set (list_eprocess ps (enumerations w))))
          \<and> (CHR ''P'' \<in> set (stat row) \<longleftrightarrow>
               UniqueProcessId e
                 \<in> UniqueProcessId ` set (list_eprocess ps (enumerations w))))
       (scanned_processes prof sess vw base_scan runs)
       (fst (PSScan_collect prof sess vw ps base_scan runs w))"
proof -
  let ?tasks = "list_eprocess ps (enumerations w)"
  let ?w1 = "w \<lparr> enumerations := Suc (enumerations w),
                 trace := trace w @ [Call_list_eprocess] \<rparr>"
  have c: "PSScan_collect prof sess vw ps base_scan runs w =
             collect_runs prof sess vw ps base_scan (set ?tasks)
               (UniqueProcessId ` set ?tasks) runs ?w1"
    by (simp add: PSScan_collect_def call_list_eprocess_def known_sets_eq)
  from collect_runs_world [of prof sess vw ps base_scan "set ?tasks"
      "UniqueProcessId ` set ?tasks" runs ?w1]
  obtain evs where w: "enumerations (snd (PSScan_collect prof sess vw ps base_scan runs w))
        = Suc (enumerations w)"
      "trace (snd (PSScan_collect prof sess vw ps base_scan runs w))
        = trace w @ Call_list_eprocess # evs"
      "Call_list_eprocess \<notin> set evs"
    unfolding c by auto
  from w(2,3) have "\<exists>evs. trace (snd (PSScan_collect prof sess vw ps base_scan runs w))
               = trace w @ Call_list_eprocess # evs
          \<and> Call_list_eprocess \<notin> set evs"
    by blast
  with w(1) collect_runs_flags [where ps = ps and ke = "set ?tasks"
      and kp = "UniqueProcessId ` set ?tasks" and prof = prof and sess = sess and vw = vw
      and base_scan = base_scan and runs = runs and w = ?w1]
  show ?thesis
    unfolding c by (intro conjI)
qed

lemma ex_scan_pae:
  "PoolScanProcess_scan (PoolScanProcess_init ex_profile ex_session_pae) ex_views [ex_pool] =
     [(ex_pool, ex_cast 2), (ex_pool, ex_cast 5)]"
  by (simp add: ex_defs)

lemma ex_collect:
  "PSScan_collect ex_profile ex_session_pae ex_views ex_pslist (\<lambda>cs r. [ex_pool])
       [ex_run ''PhysicalAS'', ex_run ''VirtualAS''] ex_world =
     (map (\<lambda>(e, v, known).
             \<lparr> allocated = allocated_flag ex_pool, offset_p = e, offset_v = v,
               ppid = InheritedFromUniqueProcessId e, pdb = Pcb_DirectoryTableBase e,
               stat = known, process_create_time = or_blank (CreateTime e),
               process_exit_time = or_blank (ExitTime e) \<rparr>)
        [(ex_cast 2, None, []), (ex_cast 5, Some 0x85000000, ''EP''),
         (ex_cast 2, Some 2, []), (ex_cast 5, Some 5, ''P'')],
      \<lparr> enumerations = 1,
        trace = [Call_list_eprocess, Call_scan (ex_run ''PhysicalAS''),
                 Call_virtual_process_from_physical_offset (ex_cast 2),
                 Call_virtual_process_from_physical_offset (ex_cast 5),
                 Call_scan (ex_run ''VirtualAS'')] \<rparr>)"
proof -
  have t: "run_type (ex_run kind) = kind" for kind
    by (simp add: ex_run_def)
  have k: "known_sets (list_eprocess ex_pslist 0) ({}, {}) =
             ({ex_eprocess ''V'' 0x85000000 0x39000 0x80000000 0x80002000 24}, {24})"
    by (simp add: ex_pslist_def ex_eprocess_def)
  have v: "virtual_process_from_physical_offset ex_pslist (ex_cast 2) = None"
      "virtual_process_from_physical_offset ex_pslist (ex_cast 5) =
         Some (ex_eprocess ''V'' 0x85000000 0x39000 0x80000000 0x80002000 24)"
    by (simp_all add: ex_pslist_def ex_cast_def ex_eprocess_def)
  have f: "UniqueProcessId (ex_cast 2) = 12" "UniqueProcessId (ex_cast 5) = 24"
      "obj_offset (ex_cast 2) = 2" "obj_offset (ex_cast 5) = 5"
      "obj_offset (ex_eprocess ''V'' 0x85000000 0x39000 0x80000000 0x80002000 24) = 0x85000000"
      "ex_cast 2 \<noteq> ex_eprocess ''V'' 0x85000000 0x39000 0x80000000 0x80002000 24"
      "ex_cast 5 \<noteq> ex_eprocess ''V'' 0x85000000 0x39000 0x80000000 0x80002000 24"
    by (simp_all add: ex_cast_def ex_eprocess_def)
  show ?thesis
    by (simp add: PSScan_collect_def call_list_eprocess_def ex_world_def k call_scan_def
          ex_scan_pae collect_row_def call_virtual_process_from_physical_offset_def t v f
          Let_def del: PoolScanProcess_scan.simps known_sets.simps)
qed

theorem psscan_known_flags_witness:
  "enumerations (snd (PSScan_collect ex_profile ex_session_pae ex_views ex_pslist
       (\<lambda>cs r. [ex_pool]) [ex_run ''PhysicalAS'', ex_run ''VirtualAS''] ex_world)) = 1
   \<and> trace (snd (PSScan_collect ex_profile ex_session_pae ex_views ex_pslist
       (\<lambda>cs r. [ex_pool]) [ex_run ''PhysicalAS'', ex_run ''VirtualAS''] ex_world))
     = [Call_list_eprocess, Call_scan (ex_run ''PhysicalAS''),
        Call_virtual_process_from_physical_offset (ex_cast 2),
        Call_virtual_process_from_physical_offset (ex_cast 5),
        Call_scan (ex_run ''VirtualAS'')]
   \<and> map stat (fst (PSScan_collect ex_profile ex_session_pae ex_views ex_pslist
       (\<lambda>cs r. [ex_pool]) [ex_run ''PhysicalAS'', ex_run ''VirtualAS''] ex_world))
     = [[], ''EP'', [], ''P'']
   \<and> list_eprocess ex_pslist (enumerations ex_world)
     = [ex_eprocess ''V'' 0x85000000 0x39000 0x80000000 0x80002000 24]
   \<and> list_eprocess ex_pslist (Suc (enumerations ex_world)) = []"
  using psscan_known_flags [of ex_profile ex_session_pae ex_views ex_pslist
      "\<lambda>cs r. [ex_pool]" "[ex_run ''PhysicalAS'', ex_run ''VirtualAS'']" ex_world]
  by (simp add: ex_collect) (simp add: ex_pslist_def ex_world_def)

section \<open>Properties of the file scan\<close>

lemma file_objects_filter:
  "file_objects vw p hs =
     filter (\<lambda>(q, h, f). \<not> not_str (FileName f)
                \<and> (case DeviceObject f of None \<Rightarrow> False | Some d \<Rightarrow> is_valid vw (DeviceType d)))
       (map (\<lambda>h. (p, h, FILE_OBJECT_at vw (obj_end h))) hs)"
  by (induction hs) (auto simp: Let_def)

lemma file_pools_filter:
  "file_pools vw pools =
     filter (\<lambda>(q, h, f). \<not> not_str (FileName f)
                \<and> (case DeviceObject f of None \<Rightarrow> False | Some d \<Rightarrow> is_valid vw (DeviceType d)))
       (concat (map (\<lambda>p. map (\<lambda>h. (p, h, FILE_OBJECT_at vw (obj_end h)))
                             (IterObject vw p ''File'')) pools))"
  by (induction pools) (simp_all add: file_objects_filter)

lemma FileScan_generate_hits_filter:
  "FileScan_generate_hits prof vw scan =
     filter (\<lambda>(q, h, f). \<not> not_str (FileName f)
                \<and> (case DeviceObject f of None \<Rightarrow> False | Some d \<Rightarrow> is_valid vw (DeviceType d)))
       (file_candidates prof vw scan)"
  by (simp add: FileScan_generate_hits_def file_candidates_def file_pools_filter)

lemma not_str_iff: "not_str s \<longleftrightarrow> s = None \<or> s = Some []"
  by (simp add: not_str_def split: option.splits)

text \<open>
  C5. Every hit of \<open>FileScan.generate_hits\<close> is a scanned file object whose name
  resolves to a non-empty string and whose device object has a valid device type; a
  candidate whose name is unreadable or empty, or whose device is unreadable or of an
  invalid type, is no hit. The table has one row for each hit and no other row.
\<close>

theorem file_hits_named_with_valid_device:
  "(\<forall>hit \<in> set (FileScan_generate_hits prof vw scan).
      hit \<in> set (file_candidates prof vw scan)
      \<and> (\<exists>name. FileName (snd (snd hit)) = Some name \<and> name \<noteq> [])
      \<and> (\<exists>d. DeviceObject (snd (snd hit)) = Some d \<and> is_valid vw (DeviceType d)))
   \<and> (\<forall>c \<in> set (file_candidates prof vw scan).
        FileName (snd (snd c)) = None \<or> FileName (snd (snd c)) = Some []
        \<or> DeviceObject (snd (snd c)) = None
        \<or> (\<exists>d. DeviceObject (snd (snd c)) = Some d \<and> \<not> is_valid vw (DeviceType d))
        \<longrightarrow> c \<notin> set (FileScan_generate_hits prof vw scan))
   \<and> FileScan_render prof vw scan =
        map (file_table_row vw) (FileScan_generate_hits prof vw scan)"
  by (auto simp: FileScan_generate_hits_filter FileScan_render_def not_str_iff
           split: option.splits)

lemma ex_file_candidates:
  "file_candidates ex_profile ex_views (\<lambda>cs. [ex_pool]) =
     map (\<lambda>b. (ex_pool, ex_header b None, ex_file b)) [10, 11, 12, 13, 14]"
  by (simp add: file_candidates_def ex_views_def ex_header_def)

lemma ex_file_hits:
  "FileScan_generate_hits ex_profile ex_views (\<lambda>cs. [ex_pool]) =
     [(ex_pool, ex_header 10 None, ex_file 10)]"
  by (simp add: FileScan_generate_hits_filter ex_file_candidates)
     (simp add: ex_file_def ex_views_def not_str_def)

theorem file_hits_named_with_valid_device_witness:
  "file_candidates ex_profile ex_views (\<lambda>cs. [ex_pool]) =
     map (\<lambda>b. (ex_pool, ex_header b None, ex_file b)) [10, 11, 12, 13, 14]
   \<and> FileScan_generate_hits ex_profile ex_views (\<lambda>cs. [ex_pool]) =
       [(ex_pool, ex_header 10 None, ex_file 10)]
   \<and> FileName (ex_file 10) = Some ''a.txt''
   \<and> DeviceObject (ex_file 10) = Some \<lparr> DeviceType = 8 \<rparr> \<and> is_valid ex_views 8
   \<and> FileName (ex_file 11) = Some []
   \<and> DeviceObject (ex_file 12) = Some \<lparr> DeviceType = 0 \<rparr> \<and> \<not> is_valid ex_views 0
   \<and> FileName (ex_file 13) = None
   \<and> DeviceObject (ex_file 14) = None
   \<and> map file_path (FileScan_render ex_profile ex_views (\<lambda>cs. [ex_pool])) = [Some ''C:a.txt'']"
  using file_hits_named_with_valid_device [of ex_profile ex_views "\<lambda>cs. [ex_pool]"]
  by (simp add: ex_file_candidates ex_file_hits file_table_row_def)
     (simp add: ex_file_def ex_views_def)

section \<open>Properties of the mutant scan\<close>

lemma mutant_objects_filter:
  "mutant_objects sess vw p hs =
     filter (\<lambda>(q, h, m, name). \<not> (verbosity sess < 5 \<and> not_str name))
       (map (\<lambda>h. (p, h, KMUTANT_at vw (obj_end h), NameInfo_Name h)) hs)"
  by (induction hs) (auto simp: Let_def)

lemma mutant_pools_filter:
  "mutant_pools sess vw pools =
     filter (\<lambda>(q, h, m, name). \<not> (verbosity sess < 5 \<and> not_str name))
       (concat (map (\<lambda>p. map (\<lambda>h. (p, h, KMUTANT_at vw (obj_end h), NameInfo_Name h))
                             (IterObject vw p ''Mutant'')) pools))"
  by (induction pools) (simp_all add: mutant_objects_filter)

lemma MutantScan_generate_hits_filter:
  "MutantScan_generate_hits prof sess vw scan =
     filter (\<lambda>(q, h, m, name). \<not> (verbosity sess < 5 \<and> not_str name))
       (mutant_candidates prof vw scan)"
  by (simp add: MutantScan_generate_hits_def mutant_candidates_def mutant_pools_filter)

text \<open>
  C7. With verbosity below 5 a mutant candidate whose name is unreadable or empty is no
  hit of \<open>MutantScan.generate_hits\<close>; a named candidate is always a hit; with
  verbosity 5 or more every candidate is a hit.
\<close>

theorem unnamed_mutants_need_verbosity:
  "(\<forall>c \<in> set (mutant_candidates prof vw scan).
      verbosity sess < 5 \<and> (snd (snd (snd c)) = None \<or> snd (snd (snd c)) = Some [])
      \<longrightarrow> c \<notin> set (MutantScan_generate_hits prof sess vw scan))
   \<and> (\<forall>c \<in> set (mutant_candidates prof vw scan).
        (\<exists>name. snd (snd (snd c)) = Some name \<and> name \<noteq> [])
        \<longrightarrow> c \<in> set (MutantScan_generate_hits prof sess vw scan))
   \<and> (5 \<le> verbosity sess
        \<longrightarrow> MutantScan_generate_hits prof sess vw scan = mutant_candidates prof vw scan)"
  by (auto simp: MutantScan_generate_hits_filter not_str_iff)

lemma ex_mutant_candidates:
  "mutant_candidates ex_profile ex_views (\<lambda>cs. [ex_pool]) =
     [(ex_pool, ex_header 20 (Some ''m''), ex_mutant 20, Some ''m''),
      (ex_pool, ex_header 21 None, ex_mutant 21, None),
      (ex_pool, ex_header 22 (Some []), ex_mutant 22, Some []),
      (ex_pool, ex_header 23 (Some ''n''), ex_mutant 23, Some ''n'')]"
  by (simp add: mutant_candidates_def ex_views_def ex_header_def)

lemma ex_mutant_hits:
  "MutantScan_generate_hits ex_profile ex_session ex_views (\<lambda>cs. [ex_pool]) =
     [(ex_pool, ex_header 20 (Some ''m''), ex_mutant 20, Some ''m''),
      (ex_pool, ex_header 23 (Some ''n''), ex_mutant 23, Some ''n'')]"
  by (simp add: MutantScan_generate_hits_filter ex_mutant_candidates not_str_def ex_session_def)

lemma ex_mutant_hits_verbose:
  "MutantScan_generate_hits ex_profile ex_session_pae ex_views (\<lambda>cs. [ex_pool]) =
     mutant_candidates ex_profile ex_views (\<lambda>cs. [ex_pool])"
  by (simp add: MutantScan_generate_hits_filter ex_session_pae_def)

theorem unnamed_mutants_need_verbosity_witness:
  "verbosity ex_session < 5 \<and> 5 \<le> verbosity ex_session_pae
   \<and> mutant_candidates ex_profile ex_views (\<lambda>cs. [ex_pool]) =
     [(ex_pool, ex_header 20 (Some ''m''), ex_mutant 20, Some ''m''),
      (ex_pool, ex_header 21 None, ex_mutant 21, None),
      (ex_pool, ex_header 22 (Some []), ex_mutant 22, Some []),
      (ex_pool, ex_header 23 (Some ''n''), ex_mutant 23, Some ''n'')]
   \<and> MutantScan_generate_hits ex_profile ex_session ex_views (\<lambda>cs. [ex_pool]) =
     [(ex_pool, ex_header 20 (Some ''m''), ex_mutant 20, Some ''m''),
      (ex_pool, ex_header 23 (Some ''n''), ex_mutant 23, Some ''n'')]
   \<and> MutantScan_generate_hits ex_profile ex_session_pae ex_views (\<lambda>cs. [ex_pool]) =
     mutant_candidates ex_profile ex_views (\<lambda>cs. [ex_pool])"
proof -
  have v: "verbosity ex_session = 1" "verbosity ex_session_pae = 5"
    by (simp_all add: ex_session_def ex_session_pae_def)
  show ?thesis
    using unnamed_mutants_need_verbosity [of ex_profile ex_views "\<lambda>cs. [ex_pool]" ex_session]
      unnamed_mutants_need_verbosity [of ex_profile ex_views "\<lambda>cs. [ex_pool]" ex_session_pae]
    by (simp add: ex_mutant_candidates ex_mutant_hits ex_mutant_hits_verbose v)
qed

lemma mutant_table_row_cid:
  "mutant_cid (mutant_table_row vw (p, h, m, name)) =
     (if 0x80000000 < OwnerThread m
      then format_field vw (Cid_UniqueProcess (ETHREAD_at vw (OwnerThread m))) @ '':''
             @ format_field vw (Cid_UniqueThread (ETHREAD_at vw (OwnerThread m)))
      else [])"
  by (simp add: mutant_table_row_def Let_def)

lemma mutant_table_row_thread:
  "mutant_thread (mutant_table_row vw (p, h, m, name)) = OwnerThread m"
  by (simp add: mutant_table_row_def Let_def)

lemma ex_mutant_hits_64:
  "MutantScan_generate_hits ex_profile64 ex_session_pae ex_views (\<lambda>cs. [ex_pool]) =
     [(ex_pool, ex_header 20 (Some ''m''), ex_mutant 20, Some ''m''),
      (ex_pool, ex_header 21 None, ex_mutant 21, None),
      (ex_pool, ex_header 22 (Some []), ex_mutant 22, Some []),
      (ex_pool, ex_header 23 (Some ''n''), ex_mutant 23, Some ''n'')]"
proof -
  have "mutant_candidates ex_profile64 ex_views (\<lambda>cs. [ex_pool]) =
          mutant_candidates ex_profile ex_views (\<lambda>cs. [ex_pool])"
    by (simp add: mutant_candidates_def)
  then show ?thesis
    by (simp add: MutantScan_generate_hits_filter ex_mutant_candidates ex_session_pae_def)
qed

text \<open>
  C8. The code does not do what the claim says. \<open>MutantScan.render\<close> compares the owner
  thread pointer with the literal 0x80000000, not with the kernel boundary of the
  profile that the process scanner uses. With \<open>MmSystemRangeStart\<close> = 0xFFFF080000000000
  every pointer of the four mutants of the image lies below the kernel boundary, yet the
  rows of the pointers 0x8A000000 and 0x90000000 carry the pair \<open>4:8\<close> of a thread read
  at that address. With the default boundary 0x80000000 the pointer 0x80000000 is at
  the boundary, and its row is blank.
\<close>

theorem mutant_cid_resolved_below_kernel_boundary:
  "kernel (PoolScanProcess_init ex_profile64 ex_session_pae) = 0xFFFF080000000000
   \<and> map mutant_thread
        (MutantScan_render ex_profile64 ex_session_pae ex_views (\<lambda>cs. [ex_pool]))
      = [0x80000000, 0x8A000000, 0x90000000, 0]
   \<and> map mutant_cid
        (MutantScan_render ex_profile64 ex_session_pae ex_views (\<lambda>cs. [ex_pool]))
      = [[], ''4:8'', ''4:8'', []]
   \<and> kernel (PoolScanProcess_init ex_profile ex_session) = 0x80000000
   \<and> OwnerThread (ex_mutant 20) = 0x80000000
   \<and> mutant_cid (mutant_table_row ex_views
        (ex_pool, ex_header 20 (Some ''m''), ex_mutant 20, Some ''m'')) = []"
proof -
  have k: "kernel (PoolScanProcess_init ex_profile64 ex_session_pae) = 0xFFFF080000000000"
      "kernel (PoolScanProcess_init ex_profile ex_session) = 0x80000000"
    by (simp_all add: PoolScanProcess_init_def ex_profile64_def ex_profile_def or_default_def)
  have m: "OwnerThread (ex_mutant 20) = 0x80000000" "OwnerThread (ex_mutant 21) = 0x8A000000"
      "OwnerThread (ex_mutant 22) = 0x90000000" "OwnerThread (ex_mutant 23) = 0"
    by (simp_all add: ex_mutant_def)
  have t: "format_field ex_views (Cid_UniqueProcess (ETHREAD_at ex_views a)) = ''4''"
      "format_field ex_views (Cid_UniqueThread (ETHREAD_at ex_views a)) = ''8''" for a
    by (simp_all add: ex_views_def)
  show ?thesis
    by (simp add: k m t MutantScan_render_def ex_mutant_hits_64 mutant_table_row_cid
          mutant_table_row_thread)
qed

section \<open>Properties of the check lists\<close>

lemma checks_symlink:
  "checks (PoolScanSymlink_init prof) =
     [ PoolTagCheck (get_constant prof ''SYMLINK_POOLTAG''),
       CheckPoolSize_min_size (get_obj_size prof ''_OBJECT_SYMBOLIC_LINK''),
       CheckPoolType True True True ]"
  by (simp add: PoolScanSymlink_init_def)

lemma checks_file:
  "checks (PoolScanFile_init prof) =
     [ PoolTagCheck (get_constant prof ''FILE_POOLTAG''),
       CheckPoolSize_min_size (get_obj_size prof ''_FILE_OBJECT''),
       CheckPoolType True True True,
       CheckPoolIndex 0 ]"
  by (simp add: PoolScanFile_init_def)

lemma checks_driver:
  "checks (PoolScanDriver_init prof) =
     [ PoolTagCheck (get_constant prof ''DRIVER_POOLTAG''),
       CheckPoolSize_condition (\<lambda>x. x > get_obj_size prof ''_DRIVER_OBJECT''),
       CheckPoolType True True True,
       CheckPoolIndex 0 ]"
  by (simp add: PoolScanDriver_init_def)

lemma checks_mutant:
  "checks (PoolScanMutant_init prof) =
     [ PoolTagCheck (get_constant prof ''MUTANT_POOLTAG''),
       CheckPoolSize_min_size (get_obj_size prof ''_KMUTANT''),
       CheckPoolType True True True,
       CheckPoolIndex 0 ]"
  by (simp add: PoolScanMutant_init_def)

lemma checks_process:
  "checks (PoolScanProcess_init prof sess) =
     [ PoolTagCheck (get_constant prof ''EPROCESS_POOLTAG''),
       CheckPoolSize_min_size (get_obj_size prof ''_EPROCESS''),
       CheckPoolType True True True,
       CheckPoolIndex 0 ]"
  by (simp add: PoolScanProcess_init_def)

lemma symlink_chain:
  "check_chain (checks (PoolScanSymlink_init prof)) c
     \<longleftrightarrow> PoolTag c = get_constant prof ''SYMLINK_POOLTAG''
         \<and> get_obj_size prof ''_OBJECT_SYMBOLIC_LINK'' \<le> pool_size c
         \<and> (PagedPool c \<or> NonPagedPool c \<or> FreePool c)"
  by (simp add: checks_symlink)

lemma chain_with_index:
  "check_chain [k1, k2, k3, CheckPoolIndex 0] c \<Longrightarrow> PoolIndex c = 0"
  by (simp split: if_splits)

lemma symlink_has_no_index_check:
  "\<forall>k \<in> set (checks (PoolScanSymlink_init prof)). \<forall>v. k \<noteq> CheckPoolIndex v"
  by (simp add: checks_symlink)

lemma symlink_chain_index:
  "check_chain (checks (PoolScanSymlink_init prof)) (c \<lparr> PoolIndex := i \<rparr>)
     = check_chain (checks (PoolScanSymlink_init prof)) c"
  by (simp add: symlink_chain)

text \<open>
  C6. The size check of the driver scanner is the second entry of its check list; its
  condition holds exactly for sizes strictly greater than the size of
  \<open>_DRIVER_OBJECT\<close>, so an allocation of exactly that size fails the check and the
  check list.
\<close>

theorem driver_size_check_is_strict:
  "(\<exists>condition. checks (PoolScanDriver_init prof) ! 1 = CheckPoolSize_condition condition
       \<and> (\<forall>x. condition x \<longleftrightarrow> get_obj_size prof ''_DRIVER_OBJECT'' < x))
   \<and> (check_passes (checks (PoolScanDriver_init prof) ! 1) c
        \<longleftrightarrow> get_obj_size prof ''_DRIVER_OBJECT'' < pool_size c)
   \<and> (pool_size c = get_obj_size prof ''_DRIVER_OBJECT''
        \<longrightarrow> \<not> check_passes (checks (PoolScanDriver_init prof) ! 1) c
            \<and> \<not> check_chain (checks (PoolScanDriver_init prof)) c)"
  by (simp add: PoolScanDriver_init_def)

theorem driver_size_check_is_strict_witness:
  "pool_size (ex_pool \<lparr> PoolTag := ''DRIV'', pool_size := 168 \<rparr>)
     = get_obj_size ex_profile ''_DRIVER_OBJECT''
   \<and> \<not> check_chain (checks (PoolScanDriver_init ex_profile))
         (ex_pool \<lparr> PoolTag := ''DRIV'', pool_size := 168 \<rparr>)
   \<and> check_chain (checks (PoolScanDriver_init ex_profile))
         (ex_pool \<lparr> PoolTag := ''DRIV'', pool_size := 169 \<rparr>)"
  using driver_size_check_is_strict [of ex_profile "ex_pool \<lparr> PoolTag := ''DRIV'', pool_size := 168 \<rparr>"]
  by (simp add: PoolScanDriver_init_def ex_profile_def ex_pool_def)

text \<open>
  C10. The check list of the symbolic-link scanner has no pool-index check: it accepts
  an allocation exactly when the tag matches, the size is at least the size of
  \<open>_OBJECT_SYMBOLIC_LINK\<close> and the allocation is paged, non-paged or free, whatever its
  pool index. The check lists of the file, driver, mutant and process scanners contain
  the check for pool index 0 and accept only allocations with pool index 0.
\<close>

theorem symlink_scanner_ignores_pool_index:
  "(\<forall>k \<in> set (checks (PoolScanSymlink_init prof)). \<forall>v. k \<noteq> CheckPoolIndex v)
   \<and> (check_chain (checks (PoolScanSymlink_init prof)) c
        \<longleftrightarrow> PoolTag c = get_constant prof ''SYMLINK_POOLTAG''
            \<and> get_obj_size prof ''_OBJECT_SYMBOLIC_LINK'' \<le> pool_size c
            \<and> (PagedPool c \<or> NonPagedPool c \<or> FreePool c))
   \<and> check_chain (checks (PoolScanSymlink_init prof)) (c \<lparr> PoolIndex := i \<rparr>)
        = check_chain (checks (PoolScanSymlink_init prof)) c
   \<and> CheckPoolIndex 0 \<in> set (checks (PoolScanFile_init prof))
   \<and> CheckPoolIndex 0 \<in> set (checks (PoolScanDriver_init prof))
   \<and> CheckPoolIndex 0 \<in> set (checks (PoolScanMutant_init prof))
   \<and> CheckPoolIndex 0 \<in> set (checks (PoolScanProcess_init prof sess))
   \<and> (check_chain (checks (PoolScanFile_init prof)) c \<longrightarrow> PoolIndex c = 0)
   \<and> (check_chain (checks (PoolScanDriver_init prof)) c \<longrightarrow> PoolIndex c = 0)
   \<and> (check_chain (checks (PoolScanMutant_init prof)) c \<longrightarrow> PoolIndex c = 0)
   \<and> (check_chain (checks (PoolScanProcess_init prof sess)) c \<longrightarrow> PoolIndex c = 0)"
proof (intro conjI impI)
  show "\<forall>k \<in> set (checks (PoolScanSymlink_init prof)). \<forall>v. k \<noteq> CheckPoolIndex v"
    by (rule symlink_has_no_index_check)
  show "check_chain (checks (PoolScanSymlink_init prof)) c
        \<longleftrightarrow> PoolTag c = get_constant prof ''SYMLINK_POOLTAG''
            \<and> get_obj_size prof ''_OBJECT_SYMBOLIC_LINK'' \<le> pool_size c
            \<and> (PagedPool c \<or> NonPagedPool c \<or> FreePool c)"
    by (rule symlink_chain)
  show "check_chain (checks (PoolScanSymlink_init prof)) (c \<lparr> PoolIndex := i \<rparr>)
        = check_chain (checks (PoolScanSymlink_init prof)) c"
    by (rule symlink_chain_index)
  show "CheckPoolIndex 0 \<in> set (checks (PoolScanFile_init prof))"
    by (simp add: checks_file)
  show "CheckPoolIndex 0 \<in> set (checks (PoolScanDriver_init prof))"
    by (simp add: checks_driver)
  show "CheckPoolIndex 0 \<in> set (checks (PoolScanMutant_init prof))"
    by (simp add: checks_mutant)
  show "CheckPoolIndex 0 \<in> set (checks (PoolScanProcess_init prof sess))"
    by (simp add: checks_process)
  show "PoolIndex c = 0" if "check_chain (checks (PoolScanFile_init prof)) c"
    using that unfolding checks_file by (rule chain_with_index)
  show "PoolIndex c = 0" if "check_chain (checks (PoolScanDriver_init prof)) c"
    using that unfolding checks_driver by (rule chain_with_index)
  show "PoolIndex c = 0" if "check_chain (checks (PoolScanMutant_init prof)) c"
    using that unfolding checks_mutant by (rule chain_with_index)
  show "PoolIndex c = 0" if "check_chain (checks (PoolScanProcess_init prof sess)) c"
    using that unfolding checks_process by (rule chain_with_index)
qed

lemma ex_profile_simps:
  "get_constant ex_profile name = take 4 name"
  "get_obj_size ex_profile name = 168"
  by (simp_all add: ex_profile_def)

lemma ex_pool_simps:
  "PoolTag ex_pool = ''EPRO''" "pool_size ex_pool = 0x300" "PagedPool ex_pool = False"
  "NonPagedPool ex_pool = True" "FreePool ex_pool = False" "PoolIndex ex_pool = 0"
  by (simp_all add: ex_pool_def)

theorem symlink_scanner_ignores_pool_index_witness:
  "check_chain (checks (PoolScanSymlink_init ex_profile))
      (ex_pool \<lparr> PoolTag := ''SYML'', PoolIndex := 7 \<rparr>)
   \<and> check_chain (checks (PoolScanSymlink_init ex_profile))
      (ex_pool \<lparr> PoolTag := ''SYML'', PoolIndex := 0 \<rparr>)
   \<and> \<not> check_chain (checks (PoolScanFile_init ex_profile))
      (ex_pool \<lparr> PoolTag := ''FILE'', PoolIndex := 7 \<rparr>)
   \<and> check_chain (checks (PoolScanFile_init ex_profile))
      (ex_pool \<lparr> PoolTag := ''FILE'', PoolIndex := 0 \<rparr>)"
proof -
  have a: "check_chain (checks (PoolScanSymlink_init ex_profile))
      (ex_pool \<lparr> PoolTag := ''SYML'', PoolIndex := 0 \<rparr>)"
    by (simp add: checks_symlink ex_profile_simps ex_pool_simps)
  have b: "check_chain (checks (PoolScanFile_init ex_profile))
      (ex_pool \<lparr> PoolTag := ''FILE'', PoolIndex := 0 \<rparr>)"
    by (simp add: checks_file ex_profile_simps ex_pool_simps)
  have c: "PoolIndex (ex_pool \<lparr> PoolTag := ''FILE'', PoolIndex := 7 \<rparr>) \<noteq> 0"
    by simp
  have u: "(ex_pool \<lparr> PoolTag := ''SYML'', PoolIndex := 0 \<rparr>) \<lparr> PoolIndex := 7 \<rparr>
             = ex_pool \<lparr> PoolTag := ''SYML'', PoolIndex := 7 \<rparr>"
    by simp
  from symlink_scanner_ignores_pool_index
      [of ex_profile "ex_pool \<lparr> PoolTag := ''SYML'', PoolIndex := 0 \<rparr>" 7 ex_session]
  have "check_chain (checks (PoolScanSymlink_init ex_profile))
      ((ex_pool \<lparr> PoolTag := ''SYML'', PoolIndex := 0 \<rparr>) \<lparr> PoolIndex := 7 \<rparr>)
        = check_chain (checks (PoolScanSymlink_init ex_profile))
            (ex_pool \<lparr> PoolTag := ''SYML'', PoolIndex := 0 \<rparr>)"
    by (elim conjE)
  with a u have d: "check_chain (checks (PoolScanSymlink_init ex_profile))
      (ex_pool \<lparr> PoolTag := ''SYML'', PoolIndex := 7 \<rparr>)"
    by simp
  from symlink_scanner_ignores_pool_index
      [of ex_profile "ex_pool \<lparr> PoolTag := ''FILE'', PoolIndex := 7 \<rparr>" 7 ex_session]
  have "check_chain (checks (PoolScanFile_init ex_profile))
          (ex_pool \<lparr> PoolTag := ''FILE'', PoolIndex := 7 \<rparr>)
        \<longrightarrow> PoolIndex (ex_pool \<lparr> PoolTag := ''FILE'', PoolIndex := 7 \<rparr>) = 0"
    by (elim conjE)
  with c have e: "\<not> check_chain (checks (PoolScanFile_init ex_profile))
      (ex_pool \<lparr> PoolTag := ''FILE'', PoolIndex := 7 \<rparr>)"
    by blast
  from a b d e show ?thesis by (intro conjI)
qed

end
